theory Spec2Isabelle
  imports Complex_Main
begin

section \<open>The Lotka-Volterra demonstration experiment\<close>

text \<open>
  The notebook \<^verbatim>\<open>examples/causal_inference/graphical_methods.ipynb\<close> defines five helper
  functions and one experiment on the Lotka-Volterra simulator. The helpers are embedded
  below, one definition per Python function, with Python's exceptions as values.
\<close>

subsection \<open>States, trajectories, configuration\<close>

text \<open>
  \<^verbatim>\<open>wn.lotka_volterra.State(rabbits=..., foxes=...)\<close>: the notebook builds a state from
  the two populations, reads \<^verbatim>\<open>.foxes\<close> and lists both fields with \<^verbatim>\<open>.values()\<close>.
  The entries are floats in a plain run and traced scalars in a traced run, so the record is
  polymorphic in the entry type.
\<close>

record 'a State =
  rabbits :: 'a
  foxes :: 'a

definition values_of :: "'a State \<Rightarrow> 'a list" where
  "values_of s = [rabbits s, foxes s]"

datatype error = IndexError | KeyError | NameError | TypeError

text \<open>
  Modelled from the spec: the run type (\<^verbatim>\<open>run[t]\<close>), whose class is not part of the
  notebook. The spec's data model makes a trajectory an ordered sequence of states indexed
  \<open>0..end_time\<close>, one per simulator step; indexing follows Python's sequence protocol
  (a negative index counts from the end, an index outside the sequence raises).
\<close>

type_synonym 'a Run = "'a State list"

definition run_at :: "'a Run \<Rightarrow> int \<Rightarrow> error + 'a State" where
  "run_at run i =
     (if 0 \<le> i \<and> i < int (length run) then Inr (run ! nat i)
      else if i < 0 \<and> - int (length run) \<le> i then Inr (run ! nat (int (length run) + i))
      else Inl IndexError)"

text \<open>
  \<^verbatim>\<open>Config(fox_growth=0.75, delta_t=1, end_time=6)\<close> and
  \<^verbatim>\<open>Intervention(time=3, fox_growth=0.4)\<close>: only the fields the notebook sets.
\<close>

record Config =
  fox_growth :: real
  delta_t :: real
  end_time :: int

record Intervention =
  time :: int
  fox_growth_to :: real

subsection \<open>Double-precision numbers\<close>

text \<open>
  The helpers compute with Python floats and numpy's \<^verbatim>\<open>float64\<close>: IEEE 754 binary64 numbers.
  A double is a finite real, an infinity or a NaN (the sign of a zero is not kept: no helper
  divides by zero). Every operation computes the exact result and rounds it to the nearest
  double, ties to the even mantissa: \<open>binade x\<close> is the exponent of \<open>x\<close> (subnormal numbers
  share the exponent \<open>-1022\<close>), \<open>ulp x\<close> the spacing of the doubles around \<open>x\<close> (53 bits of
  mantissa), \<open>rval x\<close> the multiple of \<open>ulp x\<close> nearest to \<open>x\<close>, and a result of magnitude
  \<open>2 ^ 1024\<close> or more overflows to an infinity. \<^verbatim>\<open>np.exp\<close> is taken as the rounded
  exponential; it signals overflow by returning infinity.
\<close>

datatype double = Finite real | PInf | NInf | NaN

definition round_even :: "real \<Rightarrow> int" where
  "round_even q =
     (let f = \<lfloor>q\<rfloor>
      in if q - of_int f < 1 / 2 then f
         else if 1 / 2 < q - of_int f then f + 1
         else if even f then f else f + 1)"

definition binade :: "real \<Rightarrow> int" where
  "binade x = max \<lfloor>log 2 \<bar>x\<bar>\<rfloor> (- 1022)"

definition p2 :: "int \<Rightarrow> real" where
  "p2 k = 2 powr of_int k"

definition ulp :: "real \<Rightarrow> real" where
  "ulp x = p2 (binade x - 52)"

definition rval :: "real \<Rightarrow> real" where
  "rval x = of_int (round_even (x / ulp x)) * ulp x"

definition rnd :: "real \<Rightarrow> double" where
  "rnd x =
     (if x = 0 then Finite 0
      else if 2 ^ 1024 \<le> \<bar>rval x\<bar> then (if 0 < x then PInf else NInf)
      else Finite (rval x))"

text \<open>
  The arithmetic of the helpers, with the IEEE rules for infinities and NaN. \<open>Finite\<close> carries
  the value as a real; every result of an operation is a double, since it comes out of \<open>rnd\<close>.
\<close>

fun fl_neg :: "double \<Rightarrow> double" where
  "fl_neg (Finite a) = Finite (- a)"
| "fl_neg PInf = NInf"
| "fl_neg NInf = PInf"
| "fl_neg NaN = NaN"

fun fl_add :: "double \<Rightarrow> double \<Rightarrow> double" where
  "fl_add (Finite a) (Finite b) = rnd (a + b)"
| "fl_add NaN y = NaN"
| "fl_add x NaN = NaN"
| "fl_add PInf NInf = NaN"
| "fl_add NInf PInf = NaN"
| "fl_add PInf y = PInf"
| "fl_add NInf y = NInf"
| "fl_add x PInf = PInf"
| "fl_add x NInf = NInf"

definition fl_sub :: "double \<Rightarrow> double \<Rightarrow> double" where
  "fl_sub x y = fl_add x (fl_neg y)"

fun negative :: "double \<Rightarrow> bool" where
  "negative (Finite a) = (a < 0)"
| "negative NInf = True"
| "negative PInf = False"
| "negative NaN = False"

fun fl_mul :: "double \<Rightarrow> double \<Rightarrow> double" where
  "fl_mul (Finite a) (Finite b) = rnd (a * b)"
| "fl_mul NaN y = NaN"
| "fl_mul x NaN = NaN"
| "fl_mul x y =
     (if x = Finite 0 \<or> y = Finite 0 then NaN
      else if negative x = negative y then PInf else NInf)"

fun fl_div :: "double \<Rightarrow> double \<Rightarrow> double" where
  "fl_div NaN y = NaN"
| "fl_div x NaN = NaN"
| "fl_div (Finite a) (Finite b) =
     (if b = 0 then (if a = 0 then NaN else if 0 < a then PInf else NInf)
      else rnd (a / b))"
| "fl_div (Finite a) y = Finite 0"
| "fl_div x (Finite b) = (if negative x = (b < 0) then PInf else NInf)"
| "fl_div x y = NaN"

fun fl_exp :: "double \<Rightarrow> double" where
  "fl_exp (Finite a) = rnd (exp a)"
| "fl_exp PInf = PInf"
| "fl_exp NInf = Finite 0"
| "fl_exp NaN = NaN"

subsection \<open>The helper functions of the notebook\<close>

text \<open>
  \<^verbatim>\<open>def soft_threshold(x, threshold, r=20):
    return 1. / (np.exp(r * (threshold  - x)) + 1)\<close>
\<close>

definition soft_threshold :: "double \<Rightarrow> double \<Rightarrow> double \<Rightarrow> double" where
  "soft_threshold x threshold r =
     fl_div (Finite 1) (fl_add (fl_exp (fl_mul r (fl_sub threshold x))) (Finite 1))"

text \<open>
  \<^verbatim>\<open>def confounded_propensity_scores(untreated_run, intervention):
    return 0.3 + 0.4 * (1. - soft_threshold(untreated_run[intervention.time].foxes, threshold=7))\<close>
  The literals \<^verbatim>\<open>0.3\<close> and \<^verbatim>\<open>0.4\<close> denote the doubles nearest to them; \<open>7\<close> and the default
  \<open>r = 20\<close> are exact.
\<close>

definition confounded_propensity_scores :: "double Run \<Rightarrow> Intervention \<Rightarrow> error + double" where
  "confounded_propensity_scores untreated_run intervention =
     (case run_at untreated_run (time intervention) of
        Inl e \<Rightarrow> Inl e
      | Inr s \<Rightarrow>
          Inr (fl_add (rnd 0.3)
                 (fl_mul (rnd 0.4)
                    (fl_sub (Finite 1) (soft_threshold (foxes s) (Finite 7) (Finite 20))))))"

text \<open>
  \<^verbatim>\<open>def covariate_observer(run, intervention):
    prev_state = run[max(intervention.time - 1, 0)].values()
    curr_state = run[intervention.time].values()
    return np.concatenate([prev_state, curr_state])\<close>
\<close>

definition covariate_observer :: "'a Run \<Rightarrow> Intervention \<Rightarrow> error + 'a list" where
  "covariate_observer run intervention =
     (case run_at run (max (time intervention - 1) 0) of
        Inl e \<Rightarrow> Inl e
      | Inr prev_state \<Rightarrow>
          (case run_at run (time intervention) of
             Inl e \<Rightarrow> Inl e
           | Inr curr_state \<Rightarrow> Inr (values_of prev_state @ values_of curr_state)))"

text \<open>
  \<^verbatim>\<open>def outcome_extractor(run, config):
    return run[config.end_time].foxes\<close>
\<close>

definition outcome_extractor :: "'a Run \<Rightarrow> Config \<Rightarrow> error + 'a" where
  "outcome_extractor run config =
     (case run_at run (end_time config) of
        Inl e \<Rightarrow> Inl e
      | Inr s \<Rightarrow> Inr (foxes s))"

text \<open>
  \<^verbatim>\<open>def sample_initial_states(rng):
    rabbits = rng.randint(10, 100)
    foxes = rng.uniform(0.1, 0.8) * rabbits
    return wn.lotka_volterra.State(rabbits=rabbits, foxes=foxes)\<close>
  The generator is numpy's and lives outside the repository: its two draws are parameters.
  A generator object is an interface \<open>rng\<close> together with a state of type \<open>'g\<close> that every
  draw advances.
\<close>

record 'g RandomState =
  randint :: "int \<Rightarrow> int \<Rightarrow> 'g \<Rightarrow> int \<times> 'g"
  uniform :: "real \<Rightarrow> real \<Rightarrow> 'g \<Rightarrow> real \<times> 'g"

definition sample_initial_states :: "'g RandomState \<Rightarrow> 'g \<Rightarrow> real State \<times> 'g" where
  "sample_initial_states rng g =
     (let (n_rabbits, g1) = randint rng 10 100 g;
          (u, g2) = uniform rng 0.1 0.8 g1;
          n_foxes = u * real_of_int n_rabbits
      in (\<lparr>rabbits = real_of_int n_rabbits, foxes = n_foxes\<rparr>, g2))"

section \<open>Traced execution\<close>

text \<open>
  Modelled from the spec: the tracer (\<^verbatim>\<open>whynot.traceable_numpy\<close> and the boxes it puts
  in place of floats), which the notebook imports "to enable tracing of user-generated
  functions" and which is not part of it. Following the spec's design notes, a traced scalar
  carries its provenance through every arithmetic operation: here the value together with
  the named graph nodes it was computed from. A graph node is a state variable at a step, a
  configuration parameter at a step, or one of the two synthetic nodes.
\<close>

datatype node = StateVar string nat | ParamNode string nat | Treatment | Outcome

record tscalar =
  tval :: real
  tdeps :: "node list"

definition t_const :: "real \<Rightarrow> tscalar" where
  "t_const c = \<lparr>tval = c, tdeps = []\<rparr>"

definition t_add :: "tscalar \<Rightarrow> tscalar \<Rightarrow> tscalar" where
  "t_add a b = \<lparr>tval = tval a + tval b, tdeps = tdeps a @ tdeps b\<rparr>"

definition t_sub :: "tscalar \<Rightarrow> tscalar \<Rightarrow> tscalar" where
  "t_sub a b = \<lparr>tval = tval a - tval b, tdeps = tdeps a @ tdeps b\<rparr>"

definition t_mul :: "tscalar \<Rightarrow> tscalar \<Rightarrow> tscalar" where
  "t_mul a b = \<lparr>tval = tval a * tval b, tdeps = tdeps a @ tdeps b\<rparr>"

definition t_div :: "tscalar \<Rightarrow> tscalar \<Rightarrow> tscalar" where
  "t_div a b = \<lparr>tval = tval a / tval b, tdeps = tdeps a @ tdeps b\<rparr>"

definition t_exp :: "tscalar \<Rightarrow> tscalar" where
  "t_exp a = \<lparr>tval = exp (tval a), tdeps = tdeps a\<rparr>"

text \<open>
  The two arithmetic helpers of the notebook, run on traced scalars: the same expressions,
  with each operator replaced by its traced counterpart.
\<close>

definition soft_threshold_traced :: "tscalar \<Rightarrow> tscalar \<Rightarrow> tscalar \<Rightarrow> tscalar" where
  "soft_threshold_traced x threshold r =
     t_div (t_const 1) (t_add (t_exp (t_mul r (t_sub threshold x))) (t_const 1))"

definition confounded_propensity_scores_traced
  :: "tscalar Run \<Rightarrow> Intervention \<Rightarrow> error + tscalar" where
  "confounded_propensity_scores_traced untreated_run intervention =
     (case run_at untreated_run (time intervention) of
        Inl e \<Rightarrow> Inl e
      | Inr s \<Rightarrow>
          Inr (t_add (t_const 0.3)
                 (t_mul (t_const 0.4)
                    (t_sub (t_const 1)
                       (soft_threshold_traced (foxes s) (t_const 7) (t_const 20))))))"

text \<open>
  Modelled from the spec: the tagging of a run by the tracer, which is not part of the
  notebook. Each scalar of the traced execution is tagged with its variable name and time
  step: the entry of variable \<open>v\<close> at step \<open>k\<close> carries the node \<open>StateVar v k\<close>.
\<close>

definition trace_state :: "nat \<Rightarrow> real State \<Rightarrow> tscalar State" where
  "trace_state k s =
     \<lparr>rabbits = \<lparr>tval = rabbits s, tdeps = [StateVar ''rabbits'' k]\<rparr>,
      foxes = \<lparr>tval = foxes s, tdeps = [StateVar ''foxes'' k]\<rparr>\<rparr>"

definition trace_run :: "real Run \<Rightarrow> tscalar Run" where
  "trace_run run = map (\<lambda>(k, s). trace_state k s) (enumerate 0 run)"

section \<open>The experiment and its causal graph\<close>

text \<open>
  \<^verbatim>\<open>exp = wn.DynamicsExperiment(name=..., description=..., simulator=wn.lotka_volterra,
      simulator_config=..., intervention=..., state_sampler=sample_initial_states,
      propensity_scorer=confounded_propensity_scores, outcome_extractor=outcome_extractor,
      covariate_builder=covariate_observer)\<close>
  The experiment bundles the user functions; the field for the outcome extractor is
  \<open>outcome_fn\<close>, since \<open>outcome_extractor\<close> names the notebook's function. The simulator is
  external: it is a function from a configuration, an optional intervention and an initial
  state to a trajectory.
\<close>

record 'g Experiment =
  simulator :: "Config \<Rightarrow> Intervention option \<Rightarrow> real State \<Rightarrow> real Run"
  simulator_config :: Config
  intervention :: Intervention
  state_sampler :: "'g RandomState \<Rightarrow> 'g \<Rightarrow> real State \<times> 'g"
  propensity_scorer :: "tscalar Run \<Rightarrow> Intervention \<Rightarrow> error + tscalar"
  outcome_fn :: "tscalar Run \<Rightarrow> Config \<Rightarrow> error + tscalar"
  covariate_builder :: "tscalar Run \<Rightarrow> Intervention \<Rightarrow> error + tscalar list"

definition lotka_volterra_confounding
  :: "(Config \<Rightarrow> Intervention option \<Rightarrow> real State \<Rightarrow> real Run) \<Rightarrow> 'g Experiment" where
  "lotka_volterra_confounding sim =
     \<lparr>simulator = sim,
      simulator_config = \<lparr>fox_growth = 0.75, delta_t = 1, end_time = 6\<rparr>,
      intervention = \<lparr>time = 3, fox_growth_to = 0.4\<rparr>,
      state_sampler = sample_initial_states,
      propensity_scorer = confounded_propensity_scores_traced,
      outcome_fn = outcome_extractor,
      covariate_builder = covariate_observer\<rparr>"

subsection \<open>Graph objects\<close>

text \<open>
  A networkx directed graph: \<^verbatim>\<open>graph.nodes\<close> maps each node to its attribute dictionary (in
  insertion order), the edges are pairs of nodes, and \<^verbatim>\<open>graph.graph\<close> is the dictionary of
  graph-level attributes. Nodes are printed by their names.
\<close>

record CausalGraph =
  nodes :: "(node \<times> (string \<times> string) list) list"
  edges :: "(node \<times> node) list"
  graph_attrs :: "(string \<times> string list) list"

text \<open>Python's \<^verbatim>\<open>str\<close> of a step number: its decimal digits.\<close>

definition digit_char :: "nat \<Rightarrow> char" where
  "digit_char d = ''0123456789'' ! d"

fun string_of_nat :: "nat \<Rightarrow> string" where
  "string_of_nat n =
     (if n < 10 then [digit_char n]
      else string_of_nat (n div 10) @ [digit_char (n mod 10)])"

fun node_name :: "node \<Rightarrow> string" where
  "node_name (StateVar v k) = v @ ''_'' @ string_of_nat k"
| "node_name (ParamNode p k) = ''PARAM:'' @ p @ ''_'' @ string_of_nat k"
| "node_name Treatment = ''Treatment''"
| "node_name Outcome = ''Outcome''"

text \<open>
  \<^verbatim>\<open>for node, data in graph.nodes.items():
    if data["observed"] == "yes":
        print(node)\<close>
\<close>

fun observed_listing :: "(node \<times> (string \<times> string) list) list \<Rightarrow> error + node list" where
  "observed_listing [] = Inr []"
| "observed_listing ((n, data) # rest) =
     (case map_of data ''observed'' of
        None \<Rightarrow> Inl KeyError
      | Some a \<Rightarrow>
          (case observed_listing rest of
             Inl e \<Rightarrow> Inl e
           | Inr out \<Rightarrow> Inr (if a = ''yes'' then n # out else out)))"

text \<open>\<^verbatim>\<open>graph.in_edges(v)\<close>\<close>

definition in_edges :: "CausalGraph \<Rightarrow> node \<Rightarrow> (node \<times> node) list" where
  "in_edges g v = filter (\<lambda>(a, b). b = v) (edges g)"

text \<open>\<^verbatim>\<open>graph.nodes[n]["observed"]\<close> and \<^verbatim>\<open>graph.graph["covariate_names"]\<close>, when present.\<close>

definition observed :: "CausalGraph \<Rightarrow> node \<Rightarrow> string option" where
  "observed g n = (case map_of (nodes g) n of None \<Rightarrow> None | Some data \<Rightarrow> map_of data ''observed'')"

definition covariate_names :: "CausalGraph \<Rightarrow> string list option" where
  "covariate_names g = map_of (graph_attrs g) ''covariate_names''"



subsection \<open>The graph builder\<close>

text \<open>
  Modelled from the spec: the dependency structure of the simulator's step, which is
  external to the notebook. The nodes of the dynamics are the state variables at each step
  \<open>0..end_time\<close> and the configuration parameters at each step at which the simulator reads
  them; the node listing of the notebook prints \<open>rabbits_0, foxes_0, PARAM:rabbit_growth_0,
  PARAM:rabbit_death_0, PARAM:fox_death_0, PARAM:fox_growth_0\<close> first. The notebook says
  that the dynamics are fully connected (rabbits and foxes at step \<open>t\<close> both influence
  rabbits and foxes at step \<open>t + 1\<close>); the parameters that feed each variable are those of
  the Lotka-Volterra equations, in agreement with the common causes that the identification
  log of the notebook lists (\<open>PARAM:rabbit_death_2\<close>, \<open>PARAM:fox_death_2\<close> and
  \<open>PARAM:fox_growth_2\<close>, but not \<open>PARAM:rabbit_growth_2\<close>, reach \<open>foxes_3\<close>).
\<close>

definition state_names :: "string list" where
  "state_names = [''rabbits'', ''foxes'']"

definition param_names :: "string list" where
  "param_names = [''rabbit_growth'', ''rabbit_death'', ''fox_death'', ''fox_growth'']"

definition param_parents :: "string \<Rightarrow> string list" where
  "param_parents v =
     (if v = ''rabbits'' then [''rabbit_growth'', ''rabbit_death'']
      else [''rabbit_death'', ''fox_death'', ''fox_growth''])"

definition step_nodes :: "nat \<Rightarrow> nat \<Rightarrow> node list" where
  "step_nodes T k =
     map (\<lambda>v. StateVar v k) state_names
     @ (if k < T then map (\<lambda>p. ParamNode p k) param_names else [])"

definition dynamics_nodes :: "nat \<Rightarrow> node list" where
  "dynamics_nodes T = concat (map (step_nodes T) [0..<Suc T])"

definition step_edges :: "nat \<Rightarrow> (node \<times> node) list" where
  "step_edges k =
     concat (map (\<lambda>v. map (\<lambda>u. (StateVar u k, StateVar v (Suc k))) state_names
                       @ map (\<lambda>p. (ParamNode p k, StateVar v (Suc k))) (param_parents v))
               state_names)"

definition dynamics_edges :: "nat \<Rightarrow> (node \<times> node) list" where
  "dynamics_edges T = concat (map step_edges [0..<T])"

text \<open>
  Modelled from the spec: the causal graph builder, which is library code outside the
  notebook. From the spec's component design and the outputs recorded in the notebook:
  \<^item> the nodes are those of the dynamics, then \<open>Treatment\<close> and \<open>Outcome\<close> (the node listing
    of the notebook prints these two last);
  \<^item> \<open>Treatment\<close> gets an in-edge from every node the propensity scorer reads on the
    traced untreated run, \<open>Outcome\<close> from every node the outcome extractor reads on the
    traced run;
  \<^item> the nodes whose values the covariate builder returns are marked \<open>observed = yes\<close>
    and all others \<open>observed = no\<close>, in the spec's words; the names of the former, in the
    order returned, are the attribute \<open>covariate_names\<close>. (The listing recorded in the
    notebook shows \<open>Treatment\<close> and \<open>Outcome\<close> marked \<open>yes\<close> as well; the properties of the
    listing cell are proved from that cell and its record, not from this marking.)
\<close>

definition mark :: "node list \<Rightarrow> node \<Rightarrow> node \<times> (string \<times> string) list" where
  "mark covs n = (n, [(''observed'', if n \<in> set covs then ''yes'' else ''no'')])"

definition build_graph :: "'g Experiment \<Rightarrow> real Run \<Rightarrow> real Run \<Rightarrow> error + CausalGraph" where
  "build_graph ex untreated_run run =
     (case propensity_scorer ex (trace_run untreated_run) (intervention ex) of
        Inl e \<Rightarrow> Inl e
      | Inr p \<Rightarrow>
     (case outcome_fn ex (trace_run run) (simulator_config ex) of
        Inl e \<Rightarrow> Inl e
      | Inr y \<Rightarrow>
     (case covariate_builder ex (trace_run run) (intervention ex) of
        Inl e \<Rightarrow> Inl e
      | Inr cs \<Rightarrow>
          (let T = nat (end_time (simulator_config ex));
               covs = concat (map tdeps cs)
           in Inr \<lparr>nodes = map (mark covs) (dynamics_nodes T @ [Treatment, Outcome]),
                   edges = dynamics_edges T
                           @ map (\<lambda>u. (u, Treatment)) (remdups (tdeps p))
                           @ map (\<lambda>u. (u, Outcome)) (remdups (tdeps y)),
                   graph_attrs = [(''covariate_names'', map node_name covs)]\<rparr>))))"

section \<open>The export cell\<close>

text \<open>
  \<^verbatim>\<open>graphcopy = copy.deepcopy(graph)
  graphcopy.add_edges_from([("Treatment", "Outcome")])
  del graphcopy.graph["covariate_names"]
  nx.write_gml(graphcopy, "assets/lotka_volterra_graph.gml")\<close>
  The cell mutates objects, and what it leaves of \<^verbatim>\<open>graph\<close> depends on which objects the two
  variables share. So the objects live in a store: a list of cells addressed by position. A
  graph object holds the references of its three dictionaries (\<^verbatim>\<open>graph.graph\<close>, the node
  dictionary, the edge container); a variable holds a reference to a graph object. Keys and
  attribute values are immutable values.
\<close>

type_synonym ref = nat

datatype obj =
    GraphObj ref ref ref
  | AttrDict "(string \<times> string list) list"
  | NodeDict "(node \<times> (string \<times> string) list) list"
  | EdgeDict "(node \<times> node) list"

record pstate =
  heap :: "obj list"
  vars :: "string \<rightharpoonup> ref"
  files :: "string \<rightharpoonup> CausalGraph"

text \<open>The graph value that a reference denotes in a store, when it denotes a graph.\<close>

definition load :: "obj list \<Rightarrow> ref \<Rightarrow> CausalGraph option" where
  "load h r =
     (if r < length h then
        (case h ! r of
           GraphObj a n e \<Rightarrow>
             (if a < length h \<and> n < length h \<and> e < length h then
                (case (h ! a, h ! n, h ! e) of
                   (AttrDict ad, NodeDict nd, EdgeDict ed) \<Rightarrow>
                     Some \<lparr>nodes = nd, edges = ed, graph_attrs = ad\<rparr>
                 | _ \<Rightarrow> None)
              else None)
         | _ \<Rightarrow> None)
      else None)"

text \<open>
  \<^verbatim>\<open>copy.deepcopy(graph)\<close>: a new graph object with new dictionaries, holding the same keys
  and values; nothing of the copy is shared with the original.
\<close>

definition deepcopy :: "obj list \<Rightarrow> ref \<Rightarrow> error + (ref \<times> obj list)" where
  "deepcopy h r =
     (case load h r of
        None \<Rightarrow> Inl TypeError
      | Some g \<Rightarrow>
          (let n = length h
           in Inr (n + 3,
                   h @ [AttrDict (graph_attrs g), NodeDict (nodes g), EdgeDict (edges g),
                        GraphObj n (n + 1) (n + 2)])))"

text \<open>
  \<^verbatim>\<open>G.add_edges_from(ebunch)\<close>: each edge is added if the graph does not have it, and so
  are its end points, with an empty attribute dictionary.
\<close>

definition add_node :: "node \<Rightarrow> (node \<times> (string \<times> string) list) list
    \<Rightarrow> (node \<times> (string \<times> string) list) list" where
  "add_node n nd = (if n \<in> fst ` set nd then nd else nd @ [(n, [])])"

fun add_edges :: "(node \<times> node) list \<Rightarrow> CausalGraph \<Rightarrow> CausalGraph" where
  "add_edges [] g = g"
| "add_edges ((u, v) # es) g =
     add_edges es
       (g\<lparr>nodes := add_node v (add_node u (nodes g)),
          edges := (if (u, v) \<in> set (edges g) then edges g else edges g @ [(u, v)])\<rparr>)"

definition add_edges_from :: "obj list \<Rightarrow> ref \<Rightarrow> (node \<times> node) list \<Rightarrow> error + obj list" where
  "add_edges_from h r es =
     (case load h r of
        None \<Rightarrow> Inl TypeError
      | Some g \<Rightarrow>
          (case h ! r of
             GraphObj a n e \<Rightarrow>
               Inr (h[n := NodeDict (nodes (add_edges es g)),
                      e := EdgeDict (edges (add_edges es g))])
           | _ \<Rightarrow> Inl TypeError))"

text \<open>\<^verbatim>\<open>del G.graph[key]\<close>: raises \<^verbatim>\<open>KeyError\<close> when the dictionary has no such key.\<close>

definition del_key :: "string \<Rightarrow> (string \<times> 'v) list \<Rightarrow> (string \<times> 'v) list" where
  "del_key key d = filter (\<lambda>(k, v). k \<noteq> key) d"

definition del_graph_attr :: "obj list \<Rightarrow> ref \<Rightarrow> string \<Rightarrow> error + obj list" where
  "del_graph_attr h r key =
     (case load h r of
        None \<Rightarrow> Inl TypeError
      | Some g \<Rightarrow>
          (case h ! r of
             GraphObj a n e \<Rightarrow>
               (if key \<in> fst ` set (graph_attrs g)
                then Inr (h[a := AttrDict (del_key key (graph_attrs g))])
                else Inl KeyError)
           | _ \<Rightarrow> Inl TypeError))"

text \<open>
  \<^verbatim>\<open>nx.write_gml(G, path)\<close>: the file holds the graph as it is at the time of the call. The
  text format itself belongs to networkx; the file's content is kept as the graph written.
\<close>

definition write_gml
  :: "obj list \<Rightarrow> ref \<Rightarrow> string \<Rightarrow> (string \<rightharpoonup> CausalGraph) \<Rightarrow> error + (string \<rightharpoonup> CausalGraph)" where
  "write_gml h r path fs =
     (case load h r of
        None \<Rightarrow> Inl TypeError
      | Some g \<Rightarrow> Inr (fs(path \<mapsto> g)))"

definition export_cell :: "pstate \<Rightarrow> error + pstate" where
  "export_cell s =
     (case vars s ''graph'' of
        None \<Rightarrow> Inl NameError
      | Some r \<Rightarrow>
     (case deepcopy (heap s) r of
        Inl e \<Rightarrow> Inl e
      | Inr (c, h1) \<Rightarrow>
     (case add_edges_from h1 c [(Treatment, Outcome)] of
        Inl e \<Rightarrow> Inl e
      | Inr h2 \<Rightarrow>
     (case del_graph_attr h2 c ''covariate_names'' of
        Inl e \<Rightarrow> Inl e
      | Inr h3 \<Rightarrow>
     (case write_gml h3 c ''assets/lotka_volterra_graph.gml'' (files s) of
        Inl e \<Rightarrow> Inl e
      | Inr fs \<Rightarrow>
          Inr \<lparr>heap = h3, vars = (vars s)(''graphcopy'' \<mapsto> c), files = fs\<rparr>)))))"

text \<open>
  The graph that the cell writes: the original with the edge from \<open>Treatment\<close> to \<open>Outcome\<close>
  added and the attribute \<open>covariate_names\<close> deleted.
\<close>

definition exported :: "CausalGraph \<Rightarrow> CausalGraph" where
  "exported g =
     (add_edges [(Treatment, Outcome)] g)
       \<lparr>graph_attrs := del_key ''covariate_names'' (graph_attrs g)\<rparr>"

section \<open>Properties of the helper functions\<close>

lemma run_at_in_range:
  "0 \<le> i \<Longrightarrow> nat i < length run \<Longrightarrow> run_at run i = Inr (run ! nat i)"
  by (simp add: run_at_def)

subsection \<open>Rounding to the nearest double\<close>

lemma round_even_bounds: "of_int (round_even q) \<le> q + 1 / 2" "q - 1 / 2 \<le> of_int (round_even q)"
  unfolding round_even_def Let_def by (auto; linarith)+

lemma round_even_of_int [simp]: "round_even (of_int n) = n"
  by (simp add: round_even_def)

lemma round_even_near:
  assumes "\<bar>q - of_int n\<bar> < 1 / 2"
  shows "round_even q = n"
proof -
  have "of_int (round_even q) \<le> q + 1 / 2" "q - 1 / 2 \<le> of_int (round_even q)"
    by (rule round_even_bounds)+
  with assms have "\<bar>real_of_int (round_even q) - of_int n\<bar> < 1" by linarith
  then have "\<bar>round_even q - n\<bar> < 1" by (metis of_int_diff of_int_abs of_int_less_1_iff)
  then show ?thesis by linarith
qed

lemma round_even_mono:
  assumes "q \<le> q'"
  shows "round_even q \<le> round_even q'"
proof (cases "\<lfloor>q\<rfloor> = \<lfloor>q'\<rfloor>")
  case True
  then show ?thesis
    using assms unfolding round_even_def Let_def by (auto; linarith)
next
  case False
  then have "\<lfloor>q\<rfloor> < \<lfloor>q'\<rfloor>"
    using assms floor_mono [of q q'] by linarith
  moreover have "round_even q \<le> \<lfloor>q\<rfloor> + 1" "\<lfloor>q'\<rfloor> \<le> round_even q'"
    unfolding round_even_def Let_def by auto
  ultimately show ?thesis by linarith
qed

lemma round_even_ge: "of_int n \<le> q \<Longrightarrow> n \<le> round_even q"
  using round_even_mono [of "of_int n" q] by simp

lemma round_even_le: "q \<le> of_int n \<Longrightarrow> round_even q \<le> n"
  using round_even_mono [of q "of_int n"] by simp


lemma p2_pos [simp]: "0 < p2 k"
  by (simp add: p2_def)

lemma p2_add: "p2 (j + k) = p2 j * p2 k"
  by (simp add: p2_def powr_add)

lemma p2_le_iff [simp]: "p2 j \<le> p2 k \<longleftrightarrow> j \<le> k"
  by (simp add: p2_def)

lemma p2_less_iff [simp]: "p2 j < p2 k \<longleftrightarrow> j < k"
  by (simp add: p2_def)

lemma p2_nat: "0 \<le> k \<Longrightarrow> p2 k = 2 ^ nat k"
  by (simp add: p2_def powr_realpow [symmetric])

lemma p2_neg: "k \<le> 0 \<Longrightarrow> p2 k = 1 / 2 ^ nat (- k)"
proof -
  assume "k \<le> 0"
  then have "p2 (- k) = 2 ^ nat (- k)" by (intro p2_nat) simp
  moreover have "p2 k * p2 (- k) = p2 0" by (simp add: p2_add [symmetric])
  moreover have "p2 0 = 1" by (simp add: p2_def)
  ultimately show ?thesis by (simp add: field_simps)
qed

lemma floor_log_bounds:
  assumes "0 < a"
  shows "p2 \<lfloor>log 2 a\<rfloor> \<le> a" and "a < p2 (\<lfloor>log 2 a\<rfloor> + 1)"
  using assms floor_log_eq_powr_iff [of a 2 "\<lfloor>log 2 a\<rfloor>"] by (simp_all add: p2_def)

lemma binade_ge: "- 1022 \<le> binade x"
  by (simp add: binade_def)

lemma binade_eq:
  assumes "p2 e \<le> \<bar>x\<bar>" and "\<bar>x\<bar> < p2 (e + 1)" and "- 1022 \<le> e"
  shows "binade x = e"
proof -
  have "0 < \<bar>x\<bar>" using assms(1) p2_pos [of e] by linarith
  then have "\<lfloor>log 2 \<bar>x\<bar>\<rfloor> = e"
    using assms(1,2) by (simp add: floor_log_eq_powr_iff p2_def)
  then show ?thesis using assms(3) by (simp add: binade_def)
qed

lemma abs_less_binade:
  assumes "x \<noteq> 0"
  shows "\<bar>x\<bar> < p2 (binade x + 1)"
proof -
  have pos: "0 < \<bar>x\<bar>" using assms by simp
  have "\<bar>x\<bar> < p2 (\<lfloor>log 2 \<bar>x\<bar>\<rfloor> + 1)" by (rule floor_log_bounds(2) [OF pos])
  also have "\<dots> \<le> p2 (binade x + 1)" by (simp add: binade_def)
  finally show ?thesis .
qed

lemma binade_le_abs:
  assumes "x \<noteq> 0" and "- 1022 < binade x"
  shows "p2 (binade x) \<le> \<bar>x\<bar>"
proof -
  have pos: "0 < \<bar>x\<bar>" using assms by simp
  have "binade x = \<lfloor>log 2 \<bar>x\<bar>\<rfloor>"
    using assms(2) by (simp add: binade_def max_def split: if_splits)
  then show ?thesis using floor_log_bounds(1) [OF pos] by simp
qed

lemma binade_mono:
  assumes "0 < x" and "x \<le> y"
  shows "binade x \<le> binade y"
proof -
  have "log 2 \<bar>x\<bar> \<le> log 2 \<bar>y\<bar>" using assms by simp
  then have "\<lfloor>log 2 \<bar>x\<bar>\<rfloor> \<le> \<lfloor>log 2 \<bar>y\<bar>\<rfloor>" by (rule floor_mono)
  then show ?thesis by (simp add: binade_def)
qed

lemma ulp_pos [simp]: "0 < ulp x"
  by (simp add: ulp_def)

lemma ulp_nonneg [simp]: "0 \<le> ulp x"
  using ulp_pos [of x] by linarith

lemma ulp_neq_0 [simp]: "ulp x \<noteq> 0"
  using ulp_pos [of x] by linarith

lemma p2_ulp: "p2 k * ulp x = p2 (k + binade x - 52)"
  by (simp add: ulp_def p2_add [symmetric] algebra_simps)

lemma rval_zero [simp]: "rval 0 = 0"
  using round_even_of_int [of 0] by (simp add: rval_def del: round_even_of_int)

lemma rval_nonneg:
  assumes "0 \<le> x"
  shows "0 \<le> rval x"
proof -
  have "0 \<le> x / ulp x" using assms by simp
  then have "0 \<le> round_even (x / ulp x)" using round_even_ge [of 0 "x / ulp x"] by simp
  then show ?thesis unfolding rval_def by simp
qed

lemma rval_exact:
  assumes "x = of_int n * ulp x"
  shows "rval x = x"
proof -
  have "of_int n * ulp x / ulp x = real_of_int n" by simp
  then have "x / ulp x = of_int n" using assms by simp
  then show ?thesis using assms by (simp add: rval_def)
qed

lemma rval_upper:
  assumes "0 < x"
  shows "rval x \<le> p2 (binade x + 1)"
proof -
  have eq: "p2 (binade x + 1) = of_int (2 ^ 53) * ulp x"
    using p2_ulp [of 53 x] by (simp add: p2_nat algebra_simps)
  have "x < p2 (binade x + 1)" using abs_less_binade [of x] assms by simp
  then have "x / ulp x \<le> of_int (2 ^ 53)" unfolding eq by (simp add: field_simps)
  then have "round_even (x / ulp x) \<le> 2 ^ 53" by (rule round_even_le)
  then have "real_of_int (round_even (x / ulp x)) \<le> of_int (2 ^ 53)"
    by (rule of_int_le_iff [THEN iffD2])
  then have "rval x \<le> of_int (2 ^ 53) * ulp x"
    unfolding rval_def by (rule mult_right_mono) simp
  then show ?thesis unfolding eq .
qed

lemma rval_lower:
  assumes "0 < x" and "- 1022 < binade x"
  shows "p2 (binade x) \<le> rval x"
proof -
  have eq: "p2 (binade x) = of_int (2 ^ 52) * ulp x"
    using p2_ulp [of 52 x] by (simp add: p2_nat algebra_simps)
  have "p2 (binade x) \<le> x" using binade_le_abs [of x] assms by simp
  then have "of_int (2 ^ 52) \<le> x / ulp x" unfolding eq by (simp add: field_simps)
  then have "2 ^ 52 \<le> round_even (x / ulp x)" by (rule round_even_ge)
  then have "of_int (2 ^ 52) \<le> real_of_int (round_even (x / ulp x))"
    by (rule of_int_le_iff [THEN iffD2])
  then have "of_int (2 ^ 52) * ulp x \<le> rval x"
    unfolding rval_def by (rule mult_right_mono) simp
  then show ?thesis unfolding eq .
qed

lemma rval_mono:
  assumes "0 \<le> x" and "x \<le> y"
  shows "rval x \<le> rval y"
proof (cases "x = 0")
  case True
  then show ?thesis using rval_nonneg [of y] assms by simp
next
  case False
  then have x: "0 < x" and y: "0 < y" using assms by simp_all
  have le: "binade x \<le> binade y" using binade_mono [OF x assms(2)] .
  show ?thesis
  proof (cases "binade x = binade y")
    case True
    then have u: "ulp x = ulp y" by (simp add: ulp_def)
    have "x / ulp y \<le> y / ulp y" using assms(2) by (intro divide_right_mono) simp_all
    then have "round_even (x / ulp y) \<le> round_even (y / ulp y)" by (rule round_even_mono)
    then have "real_of_int (round_even (x / ulp y)) \<le> of_int (round_even (y / ulp y))" by simp
    then show ?thesis unfolding rval_def u by (rule mult_right_mono) simp
  next
    case False
    with le have lt: "binade x + 1 \<le> binade y" by simp
    have "rval x \<le> p2 (binade x + 1)" by (rule rval_upper [OF x])
    also have "\<dots> \<le> p2 (binade y)" using lt by simp
    also have "\<dots> \<le> rval y" using rval_lower [OF y] lt binade_ge [of x] by simp
    finally show ?thesis .
  qed
qed

lemma p2_vals:
  "p2 0 = 1" "p2 1 = 2" "p2 (- 1) = 1 / 2" "p2 (- 2) = 1 / 4" "p2 (- 53) = 1 / 2 ^ 53"
  "p2 (- 54) = 1 / 2 ^ 54" "p2 (- 52) = 1 / 2 ^ 52" "p2 (- 51) = 1 / 2 ^ 51"
  "p2 5 = 32" "p2 6 = 64" "p2 2 = 4" "p2 (- 47) = 1 / 2 ^ 47" "p2 (- 106) = 1 / 2 ^ 106"
  "p2 (- 55) = 1 / 2 ^ 55"
  by (simp_all add: p2_def powr_neg_numeral)

lemma on_grid:
  assumes "p2 e \<le> \<bar>x\<bar>" and "\<bar>x\<bar> < p2 (e + 1)" and "- 1022 \<le> e"
    and "x = of_int n * p2 (e - 52)"
  shows "binade x = e" and "rval x = x"
proof -
  show b: "binade x = e" by (rule binade_eq [OF assms(1-3)])
  show "rval x = x" by (rule rval_exact [of x n]) (simp add: ulp_def b assms(4) [symmetric])
qed

lemma rval_1: "rval 1 = 1"
  by (rule on_grid(2) [of 0 1 "2 ^ 52"]) (simp_all add: p2_vals)

lemma rval_m2: "rval (- 2) = - 2"
  by (rule on_grid(2) [of 1 "- 2" "- (2 ^ 52)"]) (simp_all add: p2_vals)

lemma rval_m40: "rval (- 40) = - 40"
  by (rule on_grid(2) [of 5 "- 40" "- (5 * 2 ^ 50)"]) (simp_all add: p2_vals)

lemma rval_small: "rval (1 / 2 ^ 54) = 1 / 2 ^ 54"
  by (rule on_grid(2) [of "- 54" "1 / 2 ^ 54" "2 ^ 52"]) (simp_all add: p2_vals)


lemma round_even_tie: "even f \<Longrightarrow> round_even (of_int f + 1 / 2) = f"
proof -
  assume e: "even f"
  have "\<lfloor>real_of_int f + 1 / 2\<rfloor> = f" by linarith
  then show ?thesis using e by (simp add: round_even_def)
qed

lemma rval_near:
  assumes "p2 e \<le> \<bar>x\<bar>" and "\<bar>x\<bar> < p2 (e + 1)" and "- 1022 \<le> e"
    and "\<bar>x / p2 (e - 52) - of_int n\<bar> < 1 / 2"
  shows "rval x = of_int n * p2 (e - 52)"
proof -
  have b: "binade x = e" by (rule binade_eq [OF assms(1-3)])
  have "round_even (x / ulp x) = n"
    using assms(4) by (intro round_even_near) (simp add: ulp_def b)
  then show ?thesis by (simp add: rval_def ulp_def b)
qed

lemma rval_03: "rval 0.3 = 5404319552844595 / 2 ^ 54"
  using rval_near [of "- 2" "0.3" 5404319552844595] by (simp add: p2_vals)

lemma rval_04: "rval 0.4 = 7205759403792794 / 2 ^ 54"
  using rval_near [of "- 2" "0.4" 7205759403792794] by (simp add: p2_vals)

lemma rval_07: "rval 0.7 = 6305039478318694 / 2 ^ 53"
  using rval_near [of "- 1" "0.7" 6305039478318694] by (simp add: p2_vals)

lemma rval_d03: "rval (5404319552844595 / 2 ^ 54) = 5404319552844595 / 2 ^ 54"
  by (rule on_grid(2) [of "- 2" _ 5404319552844595]) (simp_all add: p2_vals)

lemma rval_d04: "rval (7205759403792794 / 2 ^ 54) = 7205759403792794 / 2 ^ 54"
  by (rule on_grid(2) [of "- 2" _ 7205759403792794]) (simp_all add: p2_vals)

lemma rval_sum:
  "rval (5404319552844595 / 2 ^ 54 + 7205759403792794 / 2 ^ 54) = 6305039478318694 / 2 ^ 53"
proof -
  define x :: real where "x = 12610078956637389 / 2 ^ 54"
  have b: "binade x = - 1"
    by (rule binade_eq) (simp_all add: p2_vals x_def)
  have u: "ulp x = 1 / 2 ^ 53"
    by (simp add: ulp_def b p2_vals)
  have q: "x / ulp x = of_int 6305039478318694 + 1 / 2"
    unfolding u by (simp add: x_def)
  have "round_even (x / ulp x) = 6305039478318694"
    unfolding q by (rule round_even_tie) simp
  then have "rval x = 6305039478318694 / 2 ^ 53"
    by (simp add: rval_def u)
  moreover have "5404319552844595 / 2 ^ 54 + 7205759403792794 / 2 ^ 54 = x"
    by (simp add: x_def)
  ultimately show ?thesis by (simp only:)
qed

lemma exp_minus_40: "exp (- 40 :: real) < 1 / 2 ^ 54"
proof -
  have "(13 / 8 :: real) \<le> exp (1 / 2)"
    using exp_lower_Taylor_quadratic [of "1 / 2 :: real"] by (simp add: power2_eq_square)
  then have "(13 / 8 :: real) ^ 80 \<le> exp (1 / 2) ^ 80"
    by (intro power_mono) simp_all
  also have "exp (1 / 2 :: real) ^ 80 = exp 40"
    using exp_of_nat_mult [of 80 "1 / 2 :: real"] by simp
  finally have "(13 / 8 :: real) ^ 80 \<le> exp 40" .
  moreover have "(2 :: real) ^ 54 * 8 ^ 80 < 13 ^ 80" by simp
  then have "(2 :: real) ^ 54 < (13 / 8) ^ 80" by (simp add: power_divide field_simps)
  ultimately have "(2 :: real) ^ 54 < exp 40" by linarith
  then have "1 / exp (40 :: real) < 1 / 2 ^ 54"
    by (intro divide_strict_left_mono) simp_all
  then show ?thesis by (simp add: exp_minus inverse_eq_divide)
qed

lemma rnd_not_NaN [simp]: "rnd x \<noteq> NaN"
  by (simp add: rnd_def)

lemma rnd_Finite: "\<bar>rval x\<bar> < 2 ^ 1024 \<Longrightarrow> rnd x = Finite (rval x)"
  by (auto simp: rnd_def)

lemma rnd_between:
  assumes "0 \<le> lo" and "lo \<le> x" and "x \<le> hi" and "rval hi < 2 ^ 1024"
  shows "\<exists>v. rnd x = Finite v \<and> rval lo \<le> v \<and> v \<le> rval hi"
proof -
  have x: "0 \<le> x" using assms by linarith
  have a: "rval lo \<le> rval x" by (rule rval_mono [OF assms(1,2)])
  have b: "rval x \<le> rval hi" by (rule rval_mono [OF x assms(3)])
  have "0 \<le> rval x" by (rule rval_nonneg [OF x])
  then have "\<bar>rval x\<bar> < 2 ^ 1024" using b assms(4) by linarith
  then have "rnd x = Finite (rval x)" by (rule rnd_Finite)
  then show ?thesis using a b by simp
qed

lemma rnd_nonneg:
  assumes "0 \<le> x"
  shows "(\<exists>v. rnd x = Finite v \<and> 0 \<le> v) \<or> rnd x = PInf"
proof (cases "x = 0")
  case True
  then show ?thesis by (simp add: rnd_def)
next
  case False
  then have "0 < x" using assms by simp
  then show ?thesis using rval_nonneg [OF assms] by (simp add: rnd_def)
qed

lemma rnd_ge_1:
  assumes "1 \<le> x"
  shows "(\<exists>v. rnd x = Finite v \<and> 1 \<le> v) \<or> rnd x = PInf"
proof -
  have "rval 1 \<le> rval x" by (rule rval_mono) (use assms in simp_all)
  then have "1 \<le> rval x" by (simp add: rval_1)
  moreover have "0 < x" using assms by linarith
  ultimately show ?thesis by (simp add: rnd_def)
qed

lemma soft_threshold_range:
  "\<exists>q. soft_threshold (Finite x) (Finite 7) (Finite 20) = Finite q \<and> 0 \<le> q \<and> q \<le> 1"
proof -
  define t1 where "t1 = fl_sub (Finite 7) (Finite x)"
  define t2 where "t2 = fl_mul (Finite 20) t1"
  define t3 where "t3 = fl_exp t2"
  define t4 where "t4 = fl_add t3 (Finite 1)"
  have st: "soft_threshold (Finite x) (Finite 7) (Finite 20) = fl_div (Finite 1) t4"
    by (simp add: soft_threshold_def t4_def t3_def t2_def t1_def)
  have "t1 = rnd (7 + - x)" by (simp add: t1_def fl_sub_def)
  then have n1: "t1 \<noteq> NaN" by simp
  have n2: "t2 \<noteq> NaN"
    using n1 unfolding t2_def by (cases t1) simp_all
  have r3: "(\<exists>v. t3 = Finite v \<and> 0 \<le> v) \<or> t3 = PInf"
  proof (cases t2)
    case (Finite a)
    then show ?thesis unfolding t3_def using rnd_nonneg [of "exp a"] by simp
  qed (use n2 in \<open>simp_all add: t3_def\<close>)
  have r4: "(\<exists>s. t4 = Finite s \<and> 1 \<le> s) \<or> t4 = PInf"
    using r3
  proof
    assume "\<exists>v. t3 = Finite v \<and> 0 \<le> v"
    then obtain v where v: "t3 = Finite v" "0 \<le> v" by blast
    then show ?thesis unfolding t4_def using rnd_ge_1 [of "v + 1"] by simp
  next
    assume "t3 = PInf"
    then show ?thesis by (simp add: t4_def)
  qed
  show ?thesis
    using r4
  proof
    assume "\<exists>s. t4 = Finite s \<and> 1 \<le> s"
    then obtain s where s: "t4 = Finite s" "1 \<le> s" by blast
    have "0 \<le> 1 / s" "1 / s \<le> 1" using s(2) by simp_all
    then obtain q where "rnd (1 / s) = Finite q" "rval 0 \<le> q" "q \<le> rval 1"
      using rnd_between [of 0 "1 / s" 1] by (auto simp: rval_1)
    then show ?thesis using s by (simp add: st rval_1)
  next
    assume "t4 = PInf"
    then show ?thesis by (simp add: st)
  qed
qed

lemma rnd_03: "rnd 0.3 = Finite (5404319552844595 / 2 ^ 54)"
  using rnd_Finite [of "0.3"] rval_03 by simp

lemma rnd_04: "rnd 0.4 = Finite (7205759403792794 / 2 ^ 54)"
  using rnd_Finite [of "0.4"] rval_04 by simp

lemma rnd_07: "rnd 0.7 = Finite (6305039478318694 / 2 ^ 53)"
  using rnd_Finite [of "0.7"] rval_07 by simp

lemma score_range:
  "\<exists>p. fl_add (rnd 0.3) (fl_mul (rnd 0.4) (fl_sub (Finite 1) (soft_threshold (Finite x) (Finite 7) (Finite 20)))) = Finite p
       \<and> 5404319552844595 / 2 ^ 54 \<le> p \<and> p \<le> 6305039478318694 / 2 ^ 53"
proof -
  define d03 :: real where "d03 = 5404319552844595 / 2 ^ 54"
  define d04 :: real where "d04 = 7205759403792794 / 2 ^ 54"
  have d03: "rval d03 = d03" "0 \<le> d03" unfolding d03_def by (rule rval_d03) simp
  have d04: "rval d04 = d04" "0 \<le> d04" "d04 < 2 ^ 1024" unfolding d04_def by (rule rval_d04) simp_all
  have sum: "rval (d03 + d04) = 6305039478318694 / 2 ^ 53"
    unfolding d03_def d04_def by (rule rval_sum)
  obtain q where q: "soft_threshold (Finite x) (Finite 7) (Finite 20) = Finite q" "0 \<le> q" "q \<le> 1"
    using soft_threshold_range by blast
  obtain w where w: "rnd (1 + - q) = Finite w" "0 \<le> w" "w \<le> 1"
    using rnd_between [of 0 "1 + - q" 1] q(2,3) by (auto simp: rval_1)
  have "0 \<le> d04 * w" "d04 * w \<le> d04"
    using w(2,3) d04(2) by (simp_all add: mult_left_le)
  then obtain m where m: "rnd (d04 * w) = Finite m" "0 \<le> m" "m \<le> d04"
    using rnd_between [of 0 "d04 * w" d04] d04(1,3) by auto
  have "d03 \<le> d03 + m" "d03 + m \<le> d03 + d04" using m(2,3) by simp_all
  moreover have "rval (d03 + d04) < 2 ^ 1024" unfolding sum by simp
  ultimately obtain p where p: "rnd (d03 + m) = Finite p" "rval d03 \<le> p" "p \<le> rval (d03 + d04)"
    using rnd_between [of d03 "d03 + m" "d03 + d04"] d03(2) by auto
  have r3: "rnd 0.3 = Finite d03" and r4: "rnd 0.4 = Finite d04"
    unfolding d03_def d04_def by (rule rnd_03, rule rnd_04)
  have "fl_add (rnd 0.3) (fl_mul (rnd 0.4) (fl_sub (Finite 1) (soft_threshold (Finite x) (Finite 7) (Finite 20)))) = Finite p"
    unfolding q(1) fl_sub_def r3 r4 fl_neg.simps fl_add.simps fl_mul.simps w(1) m(1) p(1)
    by (rule refl)
  moreover have "d03 \<le> p" using p(2) d03(1) by simp
  moreover have "p \<le> 6305039478318694 / 2 ^ 53" using p(3) sum by simp
  ultimately show ?thesis unfolding d03_def by (intro exI [of _ p] conjI)
qed

lemma score_at_9: "fl_add (rnd 0.3) (fl_mul (rnd 0.4) (fl_sub (Finite 1) (soft_threshold (Finite 9) (Finite 7) (Finite 20)))) = Finite (5404319552844595 / 2 ^ 54)"
proof -
  have t1: "fl_sub (Finite 7) (Finite 9) = Finite (- 2)"
    using rnd_Finite [of "- 2"] rval_m2 by (simp add: fl_sub_def)
  have t2: "fl_mul (Finite 20) (Finite (- 2)) = Finite (- 40)"
    using rnd_Finite [of "- 40"] rval_m40 by simp
  obtain v where v: "rnd (exp (- 40)) = Finite v" "0 \<le> v" "v \<le> 1 / 2 ^ 54"
    using rnd_between [of 0 "exp (- 40)" "1 / 2 ^ 54"] exp_minus_40 rval_small
    by auto
  have "rval (v + 1) = of_int (2 ^ 52) * p2 (0 - 52)"
  proof (rule rval_near)
    show "p2 0 \<le> \<bar>v + 1\<bar>" "\<bar>v + 1\<bar> < p2 (0 + 1)" using v(2,3) by (simp_all add: p2_vals)
    have "(v + 1) / p2 (0 - 52) - real_of_int (2 ^ 52) = v * 2 ^ 52"
      by (simp add: p2_vals field_simps)
    moreover have "v * 2 ^ 52 \<le> 1 / 4" using v(3) by (simp add: field_simps)
    moreover have "0 \<le> v * 2 ^ 52" using v(2) by simp
    ultimately show "\<bar>(v + 1) / p2 (0 - 52) - real_of_int (2 ^ 52)\<bar> < 1 / 2" by linarith
  qed simp
  then have "rval (v + 1) = 1" by (simp add: p2_vals)
  then have t4: "rnd (v + 1) = Finite 1" using rnd_Finite [of "v + 1"] by simp
  have one: "rnd 1 = Finite 1" using rnd_Finite [of 1] rval_1 by simp
  have zero: "rnd 0 = Finite 0" by (simp add: rnd_def)
  have d03: "rnd (5404319552844595 / 2 ^ 54) = Finite (5404319552844595 / 2 ^ 54)"
    using rnd_Finite [of "5404319552844595 / 2 ^ 54"] rval_d03 by simp
  have "soft_threshold (Finite 9) (Finite 7) (Finite 20) = fl_div (Finite 1) (Finite 1)"
    unfolding soft_threshold_def t1 t2 fl_exp.simps v(1) fl_add.simps t4 by (rule refl)
  then have st: "soft_threshold (Finite 9) (Finite 7) (Finite 20) = Finite 1"
    using one by simp
  show ?thesis
    using rnd_03 rnd_04 d03 zero by (simp add: st fl_sub_def)
qed


text \<open>
  C8 (amended). Whenever the untreated run has a state at the intervention time whose fox
  population is a finite number, \<open>confounded_propensity_scores\<close> returns a finite score
  between the double \<open>0.3\<close> and the double \<open>0.7\<close>, end points included; so the score is inside
  \<open>[0, 1]\<close> and both arms have positive probability.
\<close>

theorem propensity_score_in_unit_interval:
  assumes "run_at untreated_run (time iv) = Inr s" and "foxes s = Finite x"
  shows "\<exists>p lo hi. confounded_propensity_scores untreated_run iv = Inr (Finite p)
            \<and> rnd 0.3 = Finite lo \<and> rnd 0.7 = Finite hi \<and> lo \<le> p \<and> p \<le> hi
            \<and> 0 \<le> p \<and> p \<le> 1 \<and> 0 < p \<and> 0 < 1 - p"
proof -
  define lo :: real where "lo = 5404319552844595 / 2 ^ 54"
  define hi :: real where "hi = 6305039478318694 / 2 ^ 53"
  obtain p where p: "fl_add (rnd 0.3) (fl_mul (rnd 0.4) (fl_sub (Finite 1) (soft_threshold (Finite x) (Finite 7) (Finite 20)))) = Finite p" "lo \<le> p" "p \<le> hi"
    using score_range [of x] unfolding lo_def hi_def by (elim exE conjE)
  have c: "confounded_propensity_scores untreated_run iv = Inr (Finite p)"
    by (simp only: confounded_propensity_scores_def assms sum.case p(1))
  have lo: "rnd 0.3 = Finite lo" unfolding lo_def by (rule rnd_03)
  have hi: "rnd 0.7 = Finite hi" unfolding hi_def by (rule rnd_07)
  have "0 < lo" and "hi < 1" by (simp_all add: lo_def hi_def)
  then have b: "0 \<le> p" "p \<le> 1" "0 < p" "0 < 1 - p" using p(2,3) by simp_all
  show ?thesis
    using c lo hi p(2,3) b by (intro exI [of _ p] exI [of _ lo] exI [of _ hi] conjI)
qed

theorem propensity_score_in_unit_interval_witness:
  "run_at [\<lparr>rabbits = Finite 50, foxes = Finite 20\<rparr>,
       \<lparr>rabbits = Finite 40, foxes = Finite 12\<rparr>,
       \<lparr>rabbits = Finite 30, foxes = Finite 8\<rparr>, \<lparr>rabbits = Finite 20, foxes = Finite 6\<rparr>]
      (time \<lparr>time = 3, fox_growth_to = 0.4\<rparr>)
      = Inr \<lparr>rabbits = Finite 20, foxes = Finite 6\<rparr>
   \<and> foxes \<lparr>rabbits = Finite 20, foxes = Finite 6\<rparr> = Finite 6
   \<and> (\<exists>p. confounded_propensity_scores [\<lparr>rabbits = Finite 50, foxes = Finite 20\<rparr>,
       \<lparr>rabbits = Finite 40, foxes = Finite 12\<rparr>,
       \<lparr>rabbits = Finite 30, foxes = Finite 8\<rparr>, \<lparr>rabbits = Finite 20, foxes = Finite 6\<rparr>]
              \<lparr>time = 3, fox_growth_to = 0.4\<rparr> = Inr (Finite p)
          \<and> 0 \<le> p \<and> p \<le> 1)"
proof -
  have h: "run_at [\<lparr>rabbits = Finite 50, foxes = Finite 20\<rparr>,
       \<lparr>rabbits = Finite 40, foxes = Finite 12\<rparr>,
       \<lparr>rabbits = Finite 30, foxes = Finite 8\<rparr>, \<lparr>rabbits = Finite 20, foxes = Finite 6\<rparr>]
      (time \<lparr>time = 3, fox_growth_to = 0.4\<rparr>)
      = Inr \<lparr>rabbits = Finite 20, foxes = Finite 6\<rparr>"
    by (simp add: run_at_def)
  have f: "foxes \<lparr>rabbits = Finite 20, foxes = Finite 6\<rparr> = Finite 6"
    by simp
  from propensity_score_in_unit_interval [OF h f]
  obtain p where "confounded_propensity_scores [\<lparr>rabbits = Finite 50, foxes = Finite 20\<rparr>,
       \<lparr>rabbits = Finite 40, foxes = Finite 12\<rparr>,
       \<lparr>rabbits = Finite 30, foxes = Finite 8\<rparr>, \<lparr>rabbits = Finite 20, foxes = Finite 6\<rparr>]
              \<lparr>time = 3, fox_growth_to = 0.4\<rparr> = Inr (Finite p)" and "0 \<le> p" and "p \<le> 1"
    by (elim exE conjE)
  then show ?thesis
    by (intro conjI h f exI [of _ p])
qed

text \<open>
  C8 as stated fails: with 9 foxes at the intervention step the exponential is below half
  the spacing of the doubles at 1, the soft threshold is exactly 1 and the score is exactly
  the double \<open>0.3\<close>, which is not above 0.3.
\<close>

theorem propensity_score_saturates_counterexample:
  "confounded_propensity_scores [\<lparr>rabbits = Finite 50, foxes = Finite 20\<rparr>,
       \<lparr>rabbits = Finite 40, foxes = Finite 14\<rparr>,
       \<lparr>rabbits = Finite 30, foxes = Finite 11\<rparr>, \<lparr>rabbits = Finite 20, foxes = Finite 9\<rparr>]
      \<lparr>time = 3, fox_growth_to = 0.4\<rparr> = Inr (Finite (5404319552844595 / 2 ^ 54))
   \<and> rnd 0.3 = Finite (5404319552844595 / 2 ^ 54)
   \<and> \<not> (0.3 < (5404319552844595 / 2 ^ 54 :: real))"
proof -
  have h: "run_at [\<lparr>rabbits = Finite 50, foxes = Finite 20\<rparr>,
       \<lparr>rabbits = Finite 40, foxes = Finite 14\<rparr>,
       \<lparr>rabbits = Finite 30, foxes = Finite 11\<rparr>, \<lparr>rabbits = Finite 20, foxes = Finite 9\<rparr>]
      (time \<lparr>time = 3, fox_growth_to = 0.4\<rparr>)
      = Inr \<lparr>rabbits = Finite 20, foxes = Finite 9\<rparr>"
    by (simp add: run_at_def)
  have c: "confounded_propensity_scores [\<lparr>rabbits = Finite 50, foxes = Finite 20\<rparr>,
       \<lparr>rabbits = Finite 40, foxes = Finite 14\<rparr>,
       \<lparr>rabbits = Finite 30, foxes = Finite 11\<rparr>, \<lparr>rabbits = Finite 20, foxes = Finite 9\<rparr>]
      \<lparr>time = 3, fox_growth_to = 0.4\<rparr> = Inr (Finite (5404319552844595 / 2 ^ 54))"
    by (simp only: confounded_propensity_scores_def h sum.case State.select_convs score_at_9)
  have n: "\<not> (0.3 < (5404319552844595 / 2 ^ 54 :: real))"
    by simp
  show ?thesis
    by (intro conjI c rnd_03 n)
qed

text \<open>
  C10. For a trajectory with states \<open>0..end_time\<close> and an intervention time inside that
  range, both reads of \<open>covariate_observer\<close> are inside the trajectory: it returns the state
  at \<open>max (time - 1) 0\<close> followed by the state at \<open>time\<close>, and at \<open>time = 0\<close> this is the
  step-0 state twice.
\<close>

theorem covariate_observer_in_range:
  assumes "int (length run) = end_time cfg + 1"
    and "0 \<le> time iv" and "time iv \<le> end_time cfg"
  shows "0 \<le> max (time iv - 1) 0
       \<and> nat (max (time iv - 1) 0) < length run
       \<and> nat (time iv) < length run
       \<and> covariate_observer run iv
          = Inr (values_of (run ! nat (max (time iv - 1) 0))
                  @ values_of (run ! nat (time iv)))
       \<and> (time iv = 0 \<longrightarrow>
            covariate_observer run iv
              = Inr (values_of (run ! 0) @ values_of (run ! 0)))"
proof -
  have a: "nat (max (time iv - 1) 0) < length run"
    using assms by linarith
  have b: "nat (time iv) < length run"
    using assms by linarith
  have c: "run_at run (max (time iv - 1) 0)
             = Inr (run ! nat (max (time iv - 1) 0))"
    using a by (intro run_at_in_range) simp_all
  have d: "run_at run (time iv) = Inr (run ! nat (time iv))"
    using b assms(2) by (intro run_at_in_range) simp_all
  have e: "covariate_observer run iv
          = Inr (values_of (run ! nat (max (time iv - 1) 0))
                  @ values_of (run ! nat (time iv)))"
    by (simp add: covariate_observer_def c d)
  show ?thesis using a b e by auto
qed

theorem covariate_observer_in_range_witness:
  "int (length [\<lparr>rabbits = 20::real, foxes = 7\<rparr>, \<lparr>rabbits = 18, foxes = 9\<rparr>])
      = end_time \<lparr>fox_growth = 0.75, delta_t = 1, end_time = 1\<rparr> + 1
   \<and> 0 \<le> time \<lparr>time = 0, fox_growth_to = 0.4\<rparr>
   \<and> time \<lparr>time = 0, fox_growth_to = 0.4\<rparr>
        \<le> end_time \<lparr>fox_growth = 0.75, delta_t = 1, end_time = 1\<rparr>
   \<and> covariate_observer [\<lparr>rabbits = 20::real, foxes = 7\<rparr>, \<lparr>rabbits = 18, foxes = 9\<rparr>]
        \<lparr>time = 0, fox_growth_to = 0.4\<rparr> = Inr [20, 7, 20, 7]"
  using covariate_observer_in_range
    [of "[\<lparr>rabbits = 20::real, foxes = 7\<rparr>, \<lparr>rabbits = 18, foxes = 9\<rparr>]"
        "\<lparr>fox_growth = 0.75, delta_t = 1, end_time = 1\<rparr>"
        "\<lparr>time = 0, fox_growth_to = 0.4\<rparr>"]
  by (simp add: values_of_def)

section \<open>Properties of the traced helpers\<close>

lemma length_trace_run: "length (trace_run run) = length run"
  by (simp add: trace_run_def)

lemma nth_trace_run: "k < length run \<Longrightarrow> trace_run run ! k = trace_state k (run ! k)"
  by (simp add: trace_run_def nth_enumerate_eq)

lemma run_at_trace_run:
  assumes "0 \<le> i" and "nat i < length run"
  shows "run_at (trace_run run) i = Inr (trace_state (nat i) (run ! nat i))"
  using assms by (simp add: run_at_in_range length_trace_run nth_trace_run)

lemma tdeps_soft_threshold_traced:
  "tdeps (soft_threshold_traced x t r) = tdeps r @ tdeps t @ tdeps x"
  by (simp add: soft_threshold_traced_def t_div_def t_add_def t_exp_def
      t_mul_def t_sub_def t_const_def)

lemma traced_scorer_reads:
  assumes "0 \<le> time iv" and "nat (time iv) < length u"
  shows "\<exists>p. confounded_propensity_scores_traced (trace_run u) iv = Inr p
           \<and> tdeps p = [StateVar ''foxes'' (nat (time iv))]"
  using assms
  by (simp add: confounded_propensity_scores_traced_def run_at_trace_run
      tdeps_soft_threshold_traced t_add_def t_mul_def t_sub_def t_const_def trace_state_def)

lemma traced_outcome_reads:
  assumes "0 \<le> end_time cfg" and "nat (end_time cfg) < length run"
  shows "outcome_extractor (trace_run run) cfg
           = Inr \<lparr>tval = foxes (run ! nat (end_time cfg)),
                  tdeps = [StateVar ''foxes'' (nat (end_time cfg))]\<rparr>"
  using assms by (simp add: outcome_extractor_def run_at_trace_run trace_state_def)

lemma traced_covariates:
  assumes "0 \<le> time iv" and "nat (time iv) < length run"
  shows "covariate_observer (trace_run run) iv
           = Inr (values_of (trace_state (nat (max (time iv - 1) 0)) (run ! nat (max (time iv - 1) 0)))
                  @ values_of (trace_state (nat (time iv)) (run ! nat (time iv))))"
proof -
  have "nat (max (time iv - 1) 0) < length run" using assms by linarith
  then have "run_at (trace_run run) (max (time iv - 1) 0)
      = Inr (trace_state (nat (max (time iv - 1) 0)) (run ! nat (max (time iv - 1) 0)))"
    by (intro run_at_trace_run) simp_all
  then show ?thesis
    using assms by (simp add: covariate_observer_def run_at_trace_run)
qed

lemma tdeps_values_of_trace_state:
  "concat (map tdeps (values_of (trace_state k s))) = [StateVar ''rabbits'' k, StateVar ''foxes'' k]"
  by (simp add: values_of_def trace_state_def)

lemma step_edges_target: "e \<in> set (step_edges k) \<Longrightarrow> \<exists>v. snd e = StateVar v (Suc k)"
  by (auto simp: step_edges_def)

lemma dynamics_edges_target:
  "e \<in> set (dynamics_edges T) \<Longrightarrow> \<exists>v k. snd e = StateVar v k"
  by (auto simp: dynamics_edges_def dest: step_edges_target)

lemma filter_dynamics_edges_Treatment:
  "filter (\<lambda>(a, b). b = Treatment) (dynamics_edges T) = []"
  by (auto simp: filter_empty_conv dest: dynamics_edges_target)

lemma filter_dynamics_edges_Outcome:
  "filter (\<lambda>(a, b). b = Outcome) (dynamics_edges T) = []"
  by (auto simp: filter_empty_conv dest: dynamics_edges_target)


lemma build_graph_notebook:
  assumes fs: "propensity_scorer ex = confounded_propensity_scores_traced"
      "outcome_fn ex = outcome_extractor" "covariate_builder ex = covariate_observer"
    and t0: "0 \<le> time (intervention ex)"
    and tT: "time (intervention ex) \<le> end_time (simulator_config ex)"
    and lu: "nat (time (intervention ex)) < length u"
    and lr: "length r = nat (end_time (simulator_config ex)) + 1"
  shows "build_graph ex u r =
    Inr \<lparr>nodes = map (mark [StateVar ''rabbits'' (nat (max (time (intervention ex) - 1) 0)),
                              StateVar ''foxes'' (nat (max (time (intervention ex) - 1) 0)),
                              StateVar ''rabbits'' (nat (time (intervention ex))),
                              StateVar ''foxes'' (nat (time (intervention ex)))])
                   (dynamics_nodes (nat (end_time (simulator_config ex))) @ [Treatment, Outcome]),
          edges = dynamics_edges (nat (end_time (simulator_config ex)))
                  @ [(StateVar ''foxes'' (nat (time (intervention ex))), Treatment)]
                  @ [(StateVar ''foxes'' (nat (end_time (simulator_config ex))), Outcome)],
          graph_attrs = [(''covariate_names'',
             map node_name [StateVar ''rabbits'' (nat (max (time (intervention ex) - 1) 0)),
                            StateVar ''foxes'' (nat (max (time (intervention ex) - 1) 0)),
                            StateVar ''rabbits'' (nat (time (intervention ex))),
                            StateVar ''foxes'' (nat (time (intervention ex)))])]\<rparr>"
proof -
  let ?iv = "intervention ex" and ?cfg = "simulator_config ex"
  have a: "nat (time ?iv) < length u" by (rule lu)
  have b: "nat (time ?iv) < length r" using lr tT t0 by linarith
  have c: "0 \<le> end_time ?cfg" "nat (end_time ?cfg) < length r" using lr tT t0 by simp_all
  obtain p where p: "confounded_propensity_scores_traced (trace_run u) ?iv = Inr p"
      "tdeps p = [StateVar ''foxes'' (nat (time ?iv))]"
    using traced_scorer_reads [OF t0 a] by blast
  show ?thesis
    unfolding build_graph_def fs
    by (simp add: p traced_outcome_reads [OF c] traced_covariates [OF t0 b] Let_def
        tdeps_values_of_trace_state del: node_name.simps)
qed

lemma demo_graph:
  assumes "3 < length u" and "length r = 7"
  shows "build_graph (lotka_volterra_confounding sim) u r =
    Inr \<lparr>nodes = map (mark [StateVar ''rabbits'' 2, StateVar ''foxes'' 2,
                              StateVar ''rabbits'' 3, StateVar ''foxes'' 3])
                   (dynamics_nodes 6 @ [Treatment, Outcome]),
          edges = dynamics_edges 6 @ [(StateVar ''foxes'' 3, Treatment)]
                  @ [(StateVar ''foxes'' 6, Outcome)],
          graph_attrs = [(''covariate_names'',
             map node_name [StateVar ''rabbits'' 2, StateVar ''foxes'' 2,
                            StateVar ''rabbits'' 3, StateVar ''foxes'' 3])]\<rparr>"
  using build_graph_notebook [of "lotka_volterra_confounding sim" u r] assms
  by (simp add: lotka_volterra_confounding_def del: node_name.simps)

section \<open>Properties of the causal graph\<close>

text \<open>
  C3. In the demonstration experiment (intervention at step 3, end time 6), whatever the
  representative run (an untreated run that reaches step 3, a run with the states of steps 0
  to 6), the traced propensity scorer reads exactly the node \<open>foxes_3\<close> and the
  traced outcome extractor exactly \<open>foxes_6\<close>; the graph built has \<open>foxes_3 \<rightarrow> Treatment\<close> as
  the only edge into \<open>Treatment\<close> and \<open>foxes_6 \<rightarrow> Outcome\<close> as the only edge into \<open>Outcome\<close>, as
  the notebook's two \<^verbatim>\<open>graph.in_edges\<close> cells print.
\<close>

theorem treatment_and_outcome_in_edges:
  assumes "3 < length untreated_run" and "length run = 7"
  shows "\<exists>g p y. build_graph (lotka_volterra_confounding sim) untreated_run run = Inr g
     \<and> confounded_propensity_scores_traced (trace_run untreated_run)
           \<lparr>time = 3, fox_growth_to = 0.4\<rparr> = Inr p
     \<and> tdeps p = [StateVar ''foxes'' 3]
     \<and> outcome_extractor (trace_run run) \<lparr>fox_growth = 0.75, delta_t = 1, end_time = 6\<rparr> = Inr y
     \<and> tdeps y = [StateVar ''foxes'' 6]
     \<and> in_edges g Treatment = [(StateVar ''foxes'' 3, Treatment)]
     \<and> in_edges g Outcome = [(StateVar ''foxes'' 6, Outcome)]"
proof -
  obtain p where p: "confounded_propensity_scores_traced (trace_run untreated_run)
           \<lparr>time = 3, fox_growth_to = 0.4\<rparr> = Inr p" "tdeps p = [StateVar ''foxes'' 3]"
    using traced_scorer_reads [of "\<lparr>time = 3, fox_growth_to = 0.4\<rparr>" untreated_run] assms(1)
    by auto
  have y: "outcome_extractor (trace_run run) \<lparr>fox_growth = 0.75, delta_t = 1, end_time = 6\<rparr>
      = Inr \<lparr>tval = foxes (run ! 6), tdeps = [StateVar ''foxes'' 6]\<rparr>"
    using traced_outcome_reads [of "\<lparr>fox_growth = 0.75, delta_t = 1, end_time = 6\<rparr>" run] assms(2)
    by simp
  show ?thesis
    using p y
    by (simp add: demo_graph [OF assms] in_edges_def filter_dynamics_edges_Treatment
        filter_dynamics_edges_Outcome del: node_name.simps)
qed

theorem treatment_and_outcome_in_edges_witness:
  "3 < length (replicate 4 \<lparr>rabbits = 20::real, foxes = 7\<rparr>)
   \<and> length (replicate 7 \<lparr>rabbits = 20::real, foxes = 7\<rparr>) = 7
   \<and> (\<exists>g. build_graph (lotka_volterra_confounding (\<lambda>c i s. []) :: unit Experiment)
             (replicate 4 \<lparr>rabbits = 20, foxes = 7\<rparr>) (replicate 7 \<lparr>rabbits = 20, foxes = 7\<rparr>) = Inr g
        \<and> in_edges g Treatment = [(StateVar ''foxes'' 3, Treatment)]
        \<and> in_edges g Outcome = [(StateVar ''foxes'' 6, Outcome)])"
proof -
  have a: "3 < length (replicate 4 \<lparr>rabbits = 20::real, foxes = 7\<rparr>)"
    and b: "length (replicate 7 \<lparr>rabbits = 20::real, foxes = 7\<rparr>) = 7"
    by simp_all
  from treatment_and_outcome_in_edges [OF a b, of "\<lambda>c i s. []"]
  obtain g where "build_graph (lotka_volterra_confounding (\<lambda>c i s. []) :: unit Experiment)
             (replicate 4 \<lparr>rabbits = 20, foxes = 7\<rparr>) (replicate 7 \<lparr>rabbits = 20, foxes = 7\<rparr>) = Inr g"
    and "in_edges g Treatment = [(StateVar ''foxes'' 3, Treatment)]"
    and "in_edges g Outcome = [(StateVar ''foxes'' 6, Outcome)]"
    by (elim exE conjE)
  then show ?thesis
    by (intro conjI a b exI [of _ g])
qed

subsection \<open>The listing of the observed nodes\<close>

lemma observed_listing_Inr:
  "observed_listing ns = Inr out \<Longrightarrow>
     out = map fst (filter (\<lambda>nd. map_of (snd nd) ''observed'' = Some ''yes'') ns)
     \<and> list_all (\<lambda>nd. map_of (snd nd) ''observed'' \<noteq> None) ns"
proof (induction ns arbitrary: out)
  case Nil
  then show ?case by simp
next
  case (Cons a ns)
  obtain n d where a: "a = (n, d)" by (cases a)
  from Cons.prems obtain v rest where v: "map_of d ''observed'' = Some v"
    and r: "observed_listing ns = Inr rest"
    and o: "out = (if v = ''yes'' then n # rest else rest)"
    unfolding a by (auto split: option.splits sum.splits)
  from Cons.IH [OF r] show ?case
    unfolding a o using v by simp
qed

lemma observed_of_node:
  assumes "distinct (map fst (nodes g))" and "(n, d) \<in> set (nodes g)"
  shows "observed g n = map_of d ''observed''"
  using assms by (simp add: observed_def)


lemma observed_present:
  assumes d: "distinct (map fst (nodes g))" and l: "observed_listing (nodes g) = Inr out"
    and n: "n \<in> fst ` set (nodes g)"
  shows "\<exists>a. observed g n = Some a"
proof -
  from n obtain dt where i: "(n, dt) \<in> set (nodes g)" by auto
  have "map_of dt ''observed'' \<noteq> None"
    using observed_listing_Inr [OF l] i by (auto simp: list_all_iff)
  then show ?thesis using observed_of_node [OF d i] by auto
qed










section \<open>Properties of the export cell\<close>

lemma load_SomeD:
  assumes "load h r = Some g"
  shows "\<exists>a n e. r < length h \<and> h ! r = GraphObj a n e \<and> a < length h \<and> n < length h
           \<and> e < length h \<and> h ! a = AttrDict (graph_attrs g) \<and> h ! n = NodeDict (nodes g)
           \<and> h ! e = EdgeDict (edges g)"
  using assms
  by (auto simp: load_def split: if_splits obj.splits prod.splits)

lemma load_SomeI:
  assumes "r < length h" and "h ! r = GraphObj a n e" and "a < length h" and "n < length h"
    and "e < length h" and "h ! a = AttrDict ad" and "h ! n = NodeDict nd" and "h ! e = EdgeDict ed"
  shows "load h r = Some \<lparr>nodes = nd, edges = ed, graph_attrs = ad\<rparr>"
  using assms by (simp add: load_def)

lemma load_extend:
  assumes "load h r = Some g" and "length h \<le> length h'" and "take (length h) h' = h"
  shows "load h' r = Some g"
proof -
  from load_SomeD [OF assms(1)] obtain a n e where
    *: "r < length h" "h ! r = GraphObj a n e" "a < length h" "n < length h" "e < length h"
       "h ! a = AttrDict (graph_attrs g)" "h ! n = NodeDict (nodes g)" "h ! e = EdgeDict (edges g)"
    by blast
  have nth: "\<And>i. i < length h \<Longrightarrow> h' ! i = h ! i"
    using assms(3) by (metis nth_take)
  have "load h' r = Some \<lparr>nodes = nodes g, edges = edges g, graph_attrs = graph_attrs g\<rparr>"
    using * assms(2) by (intro load_SomeI [where a = a and n = n and e = e]) (simp_all add: nth)
  then show ?thesis by simp
qed

lemma graph_attrs_add_edges: "graph_attrs (add_edges es g) = graph_attrs g"
  by (induction es g rule: add_edges.induct) simp_all

lemma map_of_del_key: "map_of (del_key key d) key = None"
  by (induction d) (auto simp: del_key_def)

lemma map_of_Some_in_fst: "map_of d k = Some v \<Longrightarrow> k \<in> fst ` set d"
  by (metis map_of_eq_None_iff option.distinct(1))

lemma deepcopy_result:
  assumes "load h r = Some g"
  shows "deepcopy h r = Inr (length h + 3,
           h @ [AttrDict (graph_attrs g), NodeDict (nodes g), EdgeDict (edges g),
                GraphObj (length h) (length h + 1) (length h + 2)])"
  using assms by (simp add: deepcopy_def Let_def)


lemma add_edges_from_result:
  assumes "load h c = Some g" and "h ! c = GraphObj a n e"
  shows "add_edges_from h c es
       = Inr (h[n := NodeDict (nodes (add_edges es g)), e := EdgeDict (edges (add_edges es g))])"
  using assms by (simp add: add_edges_from_def)

lemma del_graph_attr_result:
  assumes "load h c = Some g" and "h ! c = GraphObj a n e" and "map_of (graph_attrs g) key = Some v"
  shows "del_graph_attr h c key = Inr (h[a := AttrDict (del_key key (graph_attrs g))])"
  using assms map_of_Some_in_fst [OF assms(3)] by (simp add: del_graph_attr_def)

lemma write_gml_result:
  assumes "load h c = Some g"
  shows "write_gml h c path fs = Inr (fs(path \<mapsto> g))"
  using assms by (simp add: write_gml_def)

lemma exported_edge: "(Treatment, Outcome) \<in> set (edges (exported g))"
  by (simp add: exported_def)

lemma exported_no_names: "covariate_names (exported g) = None"
  by (simp add: covariate_names_def exported_def map_of_del_key del: add_edges.simps)

text \<open>
  C5. When the variable \<^verbatim>\<open>graph\<close> denotes a graph \<open>g\<close> that has the attribute
  \<open>covariate_names\<close>, the export cell runs to its end; it binds \<^verbatim>\<open>graphcopy\<close> to a fresh
  object, leaves every object that existed before as it was, so \<^verbatim>\<open>graph\<close> still denotes \<open>g\<close>
  with its \<open>covariate_names\<close>; the copy and the file written hold \<open>g\<close> with the edge from
  \<open>Treatment\<close> to \<open>Outcome\<close> added and \<open>covariate_names\<close> deleted.
\<close>

theorem export_cell_leaves_graph_unchanged:
  assumes "vars s ''graph'' = Some r" and "load (heap s) r = Some g"
    and "covariate_names g = Some names"
  shows "\<exists>s' c. export_cell s = Inr s'
      \<and> vars s' ''graph'' = Some r \<and> vars s' ''graphcopy'' = Some c \<and> length (heap s) \<le> c
      \<and> take (length (heap s)) (heap s') = heap s
      \<and> load (heap s') r = Some g
      \<and> covariate_names g = Some names
      \<and> load (heap s') c = Some (exported g)
      \<and> files s' ''assets/lotka_volterra_graph.gml'' = Some (exported g)
      \<and> (Treatment, Outcome) \<in> set (edges (exported g))
      \<and> covariate_names (exported g) = None"
proof -
  define N where "N = length (heap s)"
  define g1 where "g1 = add_edges [(Treatment, Outcome)] g"
  define h1 where "h1 = heap s @ [AttrDict (graph_attrs g), NodeDict (nodes g), EdgeDict (edges g),
                GraphObj N (N + 1) (N + 2)]"
  define h2 where "h2 = h1[N + 1 := NodeDict (nodes g1), N + 2 := EdgeDict (edges g1)]"
  define h3 where "h3 = h2[N := AttrDict (del_key ''covariate_names'' (graph_attrs g))]"
  define c where "c = N + 3"
  have dc: "deepcopy (heap s) r = Inr (c, h1)"
    unfolding c_def h1_def N_def by (rule deepcopy_result [OF assms(2)])
  have len1: "length h1 = N + 4"
    by (simp add: h1_def N_def)
  have o1: "h1 ! c = GraphObj N (N + 1) (N + 2)"
    by (simp add: h1_def N_def c_def nth_append)
  have l1: "load h1 c = Some \<lparr>nodes = nodes g, edges = edges g, graph_attrs = graph_attrs g\<rparr>"
    by (rule load_SomeI [OF _ o1]) (simp_all add: h1_def N_def c_def nth_append)
  then have l1': "load h1 c = Some g"
    by simp
  have ae: "add_edges_from h1 c [(Treatment, Outcome)] = Inr h2"
    unfolding h2_def g1_def by (rule add_edges_from_result [OF l1' o1])
  have len2: "length h2 = N + 4"
    by (simp add: h2_def len1)
  have o2: "h2 ! c = GraphObj N (N + 1) (N + 2)"
    using o1 by (simp add: h2_def c_def len1)
  have l2: "load h2 c
      = Some \<lparr>nodes = nodes g1, edges = edges g1, graph_attrs = graph_attrs g\<rparr>"
    by (rule load_SomeI [OF _ o2]) (simp_all add: h2_def h1_def N_def c_def nth_append)
  have ga: "map_of (graph_attrs \<lparr>nodes = nodes g1, edges = edges g1, graph_attrs = graph_attrs g\<rparr>)
      ''covariate_names'' = Some names"
    using assms(3) by (simp add: covariate_names_def)
  have dl: "del_graph_attr h2 c ''covariate_names'' = Inr h3"
    using del_graph_attr_result [OF l2 o2 ga] by (simp add: h3_def)
  have o3: "h3 ! c = GraphObj N (N + 1) (N + 2)"
    using o2 by (simp add: h3_def c_def len2)
  have l3: "load h3 c = Some \<lparr>nodes = nodes g1, edges = edges g1,
      graph_attrs = del_key ''covariate_names'' (graph_attrs g)\<rparr>"
    by (rule load_SomeI [OF _ o3]) (simp_all add: h3_def h2_def h1_def N_def c_def nth_append)
  have ex: "\<lparr>nodes = nodes g1, edges = edges g1,
      graph_attrs = del_key ''covariate_names'' (graph_attrs g)\<rparr> = exported g"
    by (simp add: exported_def g1_def del: add_edges.simps)
  have l3': "load h3 c = Some (exported g)"
    using l3 ex by simp
  have wr: "write_gml h3 c ''assets/lotka_volterra_graph.gml'' (files s)
      = Inr ((files s)(''assets/lotka_volterra_graph.gml'' \<mapsto> exported g))"
    by (rule write_gml_result [OF l3'])
  define s' where "s' = \<lparr>heap = h3, vars = (vars s)(''graphcopy'' \<mapsto> c),
              files = (files s)(''assets/lotka_volterra_graph.gml'' \<mapsto> exported g)\<rparr>"
  have run: "export_cell s = Inr s'"
    unfolding s'_def
    by (simp only: export_cell_def assms(1) dc ae dl wr option.case sum.case prod.case)
  have frame: "take (length (heap s)) h3 = heap s"
    by (simp add: h3_def h2_def h1_def N_def)
  have keep: "load h3 r = Some g"
    by (rule load_extend [OF assms(2) _ frame]) (simp add: h3_def h2_def h1_def)
  have v1: "vars s' ''graph'' = Some r" and v2: "vars s' ''graphcopy'' = Some c"
    and hp: "heap s' = h3"
    and fl: "files s' ''assets/lotka_volterra_graph.gml'' = Some (exported g)"
    using assms(1) by (simp_all add: s'_def)
  have fresh: "length (heap s) \<le> c"
    by (simp add: c_def N_def)
  show ?thesis
    using run v1 v2 fresh frame keep assms(3) l3' fl exported_edge exported_no_names
    unfolding hp [symmetric] by blast
qed

theorem export_cell_leaves_graph_unchanged_witness:
  "vars \<lparr>heap = [AttrDict [(''covariate_names'', [''foxes_3''])],
                  NodeDict [(StateVar ''foxes'' 3, [(''observed'', ''yes'')])],
                  EdgeDict [], GraphObj 0 1 2],
          vars = [''graph'' \<mapsto> 3], files = Map.empty\<rparr> ''graph'' = Some 3
   \<and> load (heap \<lparr>heap = [AttrDict [(''covariate_names'', [''foxes_3''])],
                  NodeDict [(StateVar ''foxes'' 3, [(''observed'', ''yes'')])],
                  EdgeDict [], GraphObj 0 1 2],
          vars = [''graph'' \<mapsto> 3], files = Map.empty\<rparr>) 3
       = Some \<lparr>nodes = [(StateVar ''foxes'' 3, [(''observed'', ''yes'')])], edges = [],
               graph_attrs = [(''covariate_names'', [''foxes_3''])]\<rparr>
   \<and> covariate_names \<lparr>nodes = [(StateVar ''foxes'' 3, [(''observed'', ''yes'')])], edges = [],
               graph_attrs = [(''covariate_names'', [''foxes_3''])]\<rparr> = Some [''foxes_3'']
   \<and> (\<exists>s'. export_cell \<lparr>heap = [AttrDict [(''covariate_names'', [''foxes_3''])],
                  NodeDict [(StateVar ''foxes'' 3, [(''observed'', ''yes'')])],
                  EdgeDict [], GraphObj 0 1 2],
          vars = [''graph'' \<mapsto> 3], files = Map.empty\<rparr> = Inr s'
        \<and> load (heap s') 3
            = Some \<lparr>nodes = [(StateVar ''foxes'' 3, [(''observed'', ''yes'')])], edges = [],
                    graph_attrs = [(''covariate_names'', [''foxes_3''])]\<rparr>)"
proof -
  define s where "s = \<lparr>heap = [AttrDict [(''covariate_names'', [''foxes_3''])],
                  NodeDict [(StateVar ''foxes'' 3, [(''observed'', ''yes'')])],
                  EdgeDict [], GraphObj 0 1 2],
          vars = [''graph'' \<mapsto> 3], files = Map.empty :: string \<rightharpoonup> CausalGraph\<rparr>"
  define g where "g = \<lparr>nodes = [(StateVar ''foxes'' 3, [(''observed'', ''yes'')])], edges = [],
               graph_attrs = [(''covariate_names'', [''foxes_3''])]\<rparr>"
  have a: "vars s ''graph'' = Some 3"
    by (simp add: s_def)
  have b: "load (heap s) 3 = Some g"
    by (simp add: s_def g_def load_def)
  have c: "covariate_names g = Some [''foxes_3'']"
    by (simp add: g_def covariate_names_def)
  from export_cell_leaves_graph_unchanged [OF a b c]
  obtain s' where "export_cell s = Inr s'" and "load (heap s') 3 = Some g"
    by (elim exE conjE)
  then have "\<exists>s'. export_cell s = Inr s' \<and> load (heap s') 3 = Some g"
    by (intro exI [of _ s'] conjI)
  with a b c show ?thesis
    unfolding s_def g_def by (intro conjI)
qed

end
